theory Spec2Isabelle
  imports Main "HOL-Library.Sublist"
begin

section \<open>Python strings\<close>

text \<open>
  Identifiers, error messages and column names are Python \<^verbatim>\<open>str\<close> values; they are
  modelled as \<^typ>\<open>string\<close>. The library methods the adapter calls on them are written
  out below. \<^verbatim>\<open>str.upper\<close> and \<^verbatim>\<open>str.lower\<close> are modelled on the ASCII letters
  (every other character is kept), which is the alphabet of warehouse identifiers.
\<close>

definition ascii_lowercase :: string where
  "ascii_lowercase = ''abcdefghijklmnopqrstuvwxyz''"

definition ascii_uppercase :: string where
  "ascii_uppercase = ''ABCDEFGHIJKLMNOPQRSTUVWXYZ''"

definition upper_char :: "char \<Rightarrow> char" where
  "upper_char c =
     (case map_of (zip ascii_lowercase ascii_uppercase) c of Some u \<Rightarrow> u | None \<Rightarrow> c)"

definition lower_char :: "char \<Rightarrow> char" where
  "lower_char c =
     (case map_of (zip ascii_uppercase ascii_lowercase) c of Some l \<Rightarrow> l | None \<Rightarrow> c)"

definition upper :: "string \<Rightarrow> string" where
  "upper s = map upper_char s"

definition lower :: "string \<Rightarrow> string" where
  "lower s = map lower_char s"

text \<open>\<^verbatim>\<open>s.startswith(p)\<close> and \<^verbatim>\<open>s.endswith(p)\<close>.\<close>

definition startswith :: "string \<Rightarrow> string \<Rightarrow> bool" where
  "startswith s p = prefix p s"

definition endswith :: "string \<Rightarrow> string \<Rightarrow> bool" where
  "endswith s p = suffix p s"

text \<open>
  \<^verbatim>\<open>s.strip(chars)\<close>: every leading and every trailing character that occurs in
  \<^verbatim>\<open>chars\<close> is removed.
\<close>

definition strip :: "string \<Rightarrow> string \<Rightarrow> string" where
  "strip s chars =
     rev (dropWhile (\<lambda>c. c \<in> set chars) (rev (dropWhile (\<lambda>c. c \<in> set chars) s)))"

text \<open>\<^verbatim>\<open>needle in s\<close> on strings: \<^verbatim>\<open>needle\<close> occurs as a contiguous substring.\<close>

fun str_contains :: "string \<Rightarrow> string \<Rightarrow> bool" where
  "str_contains needle [] = (needle = [])"
| "str_contains needle (c # cs) = (prefix needle (c # cs) \<or> str_contains needle cs)"


section \<open>Adapter configuration\<close>

text \<open>
  \<^verbatim>\<open>self.config.quoting\<close> holds one boolean per identifier part
  (\<^verbatim>\<open>quoting["database"]\<close>, \<^verbatim>\<open>quoting["schema"]\<close>, \<^verbatim>\<open>quoting["identifier"]\<close>).
\<close>

record quoting =
  quote_database :: bool
  quote_schema :: bool
  quote_identifier :: bool

text \<open>
  The part of \<^verbatim>\<open>self\<close> that identifier normalisation reads:
  \<^verbatim>\<open>self.Relation.quote_character\<close> (a one-character string, declared with the relation
  class outside \<^verbatim>\<open>impl.py\<close> and therefore a field here) and \<^verbatim>\<open>self.config.quoting\<close>.
\<close>

record adapter_config =
  quote_character :: char
  config_quoting :: quoting


section \<open>Identifier normalisation (\<^verbatim>\<open>_make_match_kwargs\<close>)\<close>

text \<open>
  \<^verbatim>\<open>_is_quoted\<close>: the identifier is not \<^verbatim>\<open>None\<close>, starts with the quote character and
  ends with it.
\<close>

definition is_quoted :: "adapter_config \<Rightarrow> string option \<Rightarrow> bool" where
  "is_quoted self identifier =
     (case identifier of
        None \<Rightarrow> False
      | Some s \<Rightarrow> startswith s [quote_character self] \<and> endswith s [quote_character self])"

text \<open>\<^verbatim>\<open>_strip_quotes\<close>: \<^verbatim>\<open>identifier.strip(self.Relation.quote_character)\<close>.\<close>

definition strip_quotes :: "adapter_config \<Rightarrow> string \<Rightarrow> string" where
  "strip_quotes self identifier = strip identifier [quote_character self]"

text \<open>
  \<^verbatim>\<open>filter_null_values\<close>: the dictionary without the entries whose value is \<^verbatim>\<open>None\<close>.
  A dictionary literal is an association list in the order it was written.
\<close>

fun filter_null_values :: "(string \<times> string option) list \<Rightarrow> (string \<times> string) list" where
  "filter_null_values [] = []"
| "filter_null_values ((k, None) # kvs) = filter_null_values kvs"
| "filter_null_values ((k, Some v) # kvs) = (k, v) # filter_null_values kvs"

text \<open>
  \<^verbatim>\<open>_make_match_kwargs\<close>, statement by statement: the identifier, then the schema, then
  the database. In each \<^verbatim>\<open>elif\<close> the test \<^verbatim>\<open>x is not None\<close> is the \<open>Some\<close> case and
  \<^verbatim>\<open>quoting[part] is False\<close> is the negated flag.
\<close>

definition make_match_kwargs ::
  "adapter_config \<Rightarrow> string option \<Rightarrow> string option \<Rightarrow> string option \<Rightarrow> (string \<times> string) list"
where
  "make_match_kwargs self database schema identifier =
     (let quoting = config_quoting self;
          identifier' =
            (if is_quoted self identifier then map_option (strip_quotes self) identifier
             else if identifier \<noteq> None \<and> \<not> quote_identifier quoting
               then map_option upper identifier
             else identifier);
          schema' =
            (if is_quoted self schema then map_option (strip_quotes self) schema
             else if schema \<noteq> None \<and> \<not> quote_schema quoting
               then map_option upper schema
             else schema);
          database' =
            (if is_quoted self database then map_option (strip_quotes self) database
             else if database \<noteq> None \<and> \<not> quote_database quoting
               then map_option upper database
             else database)
      in filter_null_values
           [(''identifier'', identifier'), (''schema'', schema'), (''database'', database')])"


text \<open>
  The normaliser in the spec's words, for one identifier part: a part wrapped in the quote
  character on both ends has its quotes stripped and is not folded; otherwise, with
  quoting disabled for the part, it is folded to upper case; otherwise it is unchanged.
\<close>

definition spec_normalize :: "char \<Rightarrow> bool \<Rightarrow> string \<Rightarrow> string" where
  "spec_normalize q quoting_enabled part =
     (if part \<noteq> [] \<and> hd part = q \<and> last part = q then strip part [q]
      else if \<not> quoting_enabled then upper part
      else part)"

text \<open>
  A configuration to evaluate on: the double quote as quote character and quoting disabled
  for every part.
\<close>

definition example_config :: adapter_config where
  "example_config =
     \<lparr>quote_character = CHR 0x22,
      config_quoting = \<lparr>quote_database = False, quote_schema = False, quote_identifier = False\<rparr>\<rparr>"

section \<open>Exceptions and cell values\<close>

text \<open>
  The exceptions that cross the adapter's methods. A \<^verbatim>\<open>DbtDatabaseError\<close> carries
  \<^verbatim>\<open>str(exc)\<close>, the text the handlers search; the other constructors carry their message.
  A method that can raise returns \<open>exn + 'a\<close>, with \<open>Inl\<close> for the exception.
\<close>

datatype exn =
    DbtDatabaseError string
  | DbtRuntimeError string
  | DbtCatalogIntegrationNotFoundError string
  | ValueError string
  | AttributeError string
  | OtherException string

text \<open>
  A value read from a row of a metadata result: \<^verbatim>\<open>None\<close>, a string, a boolean or a
  number. Python's \<^verbatim>\<open>==\<close> between such a value and a string literal holds only for
  the equal string, which is equality with \<open>Str\<close> of the literal.
\<close>

datatype cell = Null | Str string | Bool bool | Num int


section \<open>Relations\<close>

text \<open>
  Modelled from the spec: the enum \<^verbatim>\<open>SnowflakeRelationType\<close> is declared with the relation
  configuration, outside \<^verbatim>\<open>impl.py\<close>. Its members are the kinds of the spec's relation
  descriptor; the value of a member of this string enum is its name in lower case, words
  joined by an underscore. \<^verbatim>\<open>str(member)\<close> is that value.
\<close>

datatype relation_type = Table | View | CTE | External | DynamicTable

fun relation_type_value :: "relation_type \<Rightarrow> string" where
  "relation_type_value Table = ''table''"
| "relation_type_value View = ''view''"
| "relation_type_value CTE = ''cte''"
| "relation_type_value External = ''external''"
| "relation_type_value DynamicTable = ''dynamic_table''"

definition relation_type_members :: "relation_type list" where
  "relation_type_members = [Table, View, CTE, External, DynamicTable]"

text \<open>
  \<^verbatim>\<open>self.Relation.get_relation_type(value)\<close>: the enum looked up by value, which raises
  \<^verbatim>\<open>ValueError\<close> on a string that is no member's value.
\<close>

definition get_relation_type :: "string \<Rightarrow> exn + relation_type" where
  "get_relation_type v =
     (case find (\<lambda>k. relation_type_value k = v) relation_type_members of
        Some k \<Rightarrow> Inr k
      | None \<Rightarrow> Inl (ValueError v))"

text \<open>
  Modelled from the spec: the table formats \<^verbatim>\<open>constants.ICEBERG_TABLE_FORMAT\<close> and
  \<^verbatim>\<open>constants.INFO_SCHEMA_TABLE_FORMAT\<close> are declared outside \<^verbatim>\<open>impl.py\<close>; they are
  the two members of the spec's storage format.
\<close>

datatype storage_format = Default | OpenTableFormat

definition ICEBERG_TABLE_FORMAT :: storage_format where
  "ICEBERG_TABLE_FORMAT = OpenTableFormat"

definition INFO_SCHEMA_TABLE_FORMAT :: storage_format where
  "INFO_SCHEMA_TABLE_FORMAT = Default"

text \<open>What \<^verbatim>\<open>self.Relation.create\<close> is given by the lister.\<close>

record relation =
  rel_database :: cell
  rel_schema :: cell
  rel_identifier :: cell
  rel_type :: relation_type
  rel_table_format :: storage_format
  rel_quote_policy :: quoting


section \<open>Listing relations\<close>

text \<open>
  \<^verbatim>\<open>_parse_list_relations_result\<close>. The row is unpacked into six values (a row of another
  length raises \<^verbatim>\<open>ValueError\<close> at the unpacking, outside the \<^verbatim>\<open>try\<close>). Inside the
  \<^verbatim>\<open>try\<close>, \<^verbatim>\<open>relation_type.lower()\<close> exists for a string only (\<^verbatim>\<open>AttributeError\<close>
  otherwise, which the handler does not catch), and the \<^verbatim>\<open>ValueError\<close> of the enum lookup
  is replaced by \<^verbatim>\<open>External\<close>.
\<close>

fun parse_list_relations_result :: "cell list \<Rightarrow> exn + relation" where
  "parse_list_relations_result
     [database, schema, identifier, relation_type, is_dynamic, is_iceberg] =
     (case (case relation_type of
              Str s \<Rightarrow>
                (case get_relation_type (lower s) of
                   Inr k \<Rightarrow> Inr k
                 | Inl (ValueError _) \<Rightarrow> Inr External
                 | Inl e \<Rightarrow> Inl e)
            | _ \<Rightarrow> Inl (AttributeError ''lower'')) of
        Inl e \<Rightarrow> Inl e
      | Inr relation_type' \<Rightarrow>
          (let relation_type'' =
                 (if relation_type' = Table \<and> is_dynamic = Str ''Y'' then DynamicTable
                  else relation_type');
               table_format =
                 (if is_iceberg = Str ''Y'' \<or> is_iceberg = Str ''YES'' then ICEBERG_TABLE_FORMAT
                  else INFO_SCHEMA_TABLE_FORMAT);
               quote_policy =
                 \<lparr>quote_database = True, quote_schema = True, quote_identifier = True\<rparr>
           in Inr \<lparr>rel_database = database, rel_schema = schema, rel_identifier = identifier,
                    rel_type = relation_type'', rel_table_format = table_format,
                    rel_quote_policy = quote_policy\<rparr>))"
| "parse_list_relations_result _ = Inl (ValueError ''unpack'')"

text \<open>
  The kind that the \<^verbatim>\<open>try\<close> statement of \<^verbatim>\<open>_parse_list_relations_result\<close> resolves from a
  type string: the enum member whose value is the string in lower case, and
  \<^verbatim>\<open>External\<close> when there is none.
\<close>

definition resolve_kind :: "string \<Rightarrow> relation_type" where
  "resolve_kind s = (case get_relation_type (lower s) of Inr k \<Rightarrow> k | Inl _ \<Rightarrow> External)"

text \<open>A relation to evaluate on.\<close>

definition example_relation :: relation where
  "example_relation =
     \<lparr>rel_database = Str ''DB'', rel_schema = Str ''SCH'', rel_identifier = Str ''T'',
      rel_type = Table, rel_table_format = Default,
      rel_quote_policy = \<lparr>quote_database = True, quote_schema = True, quote_identifier = True\<rparr>\<rparr>"

text \<open>
  The result of a metadata macro is a table: its column names and its rows, each row
  holding one value per column.
\<close>

record agate_table =
  column_names :: "string list"
  table_rows :: "cell list list"

text \<open>\<^verbatim>\<open>table.rename(column_names=[col.lower() for col in table.column_names])\<close>.\<close>

definition rename_lower :: "agate_table \<Rightarrow> agate_table" where
  "rename_lower t = t\<lparr>column_names := map lower (column_names t)\<rparr>"

text \<open>
  \<^verbatim>\<open>table.select(columns)\<close>: the position of each requested name among the column names
  (the first one; a name that is not a column raises \<^verbatim>\<open>ValueError\<close>), then every row cut
  down to these positions. A value missing from a short row reads as \<^verbatim>\<open>None\<close>.
\<close>

fun index_of :: "string \<Rightarrow> string list \<Rightarrow> nat option" where
  "index_of k [] = None"
| "index_of k (n # ns) = (if n = k then Some 0 else map_option Suc (index_of k ns))"

fun column_indexes :: "string list \<Rightarrow> string list \<Rightarrow> exn + nat list" where
  "column_indexes names [] = Inr []"
| "column_indexes names (k # ks) =
     (case index_of k names of
        None \<Rightarrow> Inl (ValueError k)
      | Some i \<Rightarrow> (case column_indexes names ks of Inl e \<Rightarrow> Inl e | Inr is \<Rightarrow> Inr (i # is)))"

definition row_at :: "cell list \<Rightarrow> nat \<Rightarrow> cell" where
  "row_at row i = (if i < length row then row ! i else Null)"

definition select :: "agate_table \<Rightarrow> string list \<Rightarrow> exn + cell list list" where
  "select t key =
     (case column_indexes (column_names t) key of
        Inl e \<Rightarrow> Inl e
      | Inr indexes \<Rightarrow> Inr (map (\<lambda>row. map (row_at row) indexes) (table_rows t)))"

text \<open>A list comprehension over a function that can raise stops at the first exception.\<close>

fun map_raising :: "('a \<Rightarrow> exn + 'b) \<Rightarrow> 'a list \<Rightarrow> exn + 'b list" where
  "map_raising f [] = Inr []"
| "map_raising f (x # xs) =
     (case f x of
        Inl e \<Rightarrow> Inl e
      | Inr y \<Rightarrow> (case map_raising f xs of Inl e \<Rightarrow> Inl e | Inr ys \<Rightarrow> Inr (y # ys)))"

text \<open>
  \<^verbatim>\<open>list_relations_without_caching\<close>. The first argument is the metadata collaborator,
  \<^verbatim>\<open>self.execute_macro(LIST_RELATIONS_MACRO_NAME, kwargs={"schema_relation": ...})\<close>, whose
  outcome is a table or an exception.
\<close>

definition list_relations_without_caching ::
  "(relation \<Rightarrow> exn + agate_table) \<Rightarrow> relation \<Rightarrow> exn + relation list"
where
  "list_relations_without_caching execute_macro schema_relation =
     (case execute_macro schema_relation of
        Inl (DbtDatabaseError msg) \<Rightarrow>
          (if str_contains ''002043 (02000)'' msg then Inr [] else Inl (DbtDatabaseError msg))
      | Inl exc \<Rightarrow> Inl exc
      | Inr schema_objects \<Rightarrow>
          (let columns = [''database_name'', ''schema_name'', ''name'', ''kind'',
                          ''is_dynamic'', ''is_iceberg''];
               schema_objects' = rename_lower schema_objects
           in case select schema_objects' columns of
                Inl exc \<Rightarrow> Inl exc
              | Inr objs \<Rightarrow> map_raising parse_list_relations_result objs))"

text \<open>A column as the column listing returns it (\<^verbatim>\<open>c.column\<close>, \<^verbatim>\<open>c.dtype\<close>).\<close>

record snowflake_column =
  column :: string
  dtype :: string

text \<open>
  \<^verbatim>\<open>get_columns_in_relation\<close>. The first argument is the inherited
  \<^verbatim>\<open>super().get_columns_in_relation\<close>, which runs the column listing.
\<close>

definition get_columns_in_relation ::
  "(relation \<Rightarrow> exn + snowflake_column list) \<Rightarrow> relation \<Rightarrow> exn + snowflake_column list"
where
  "get_columns_in_relation super_get_columns_in_relation relation =
     (case super_get_columns_in_relation relation of
        Inl (DbtDatabaseError msg) \<Rightarrow>
          (if str_contains ''does not exist or not authorized'' msg then Inr []
           else Inl (DbtDatabaseError msg))
      | Inl exc \<Rightarrow> Inl exc
      | Inr columns \<Rightarrow> Inr columns)"


section \<open>The catalog entry of a single relation\<close>

text \<open>
  A row of the object-metadata result, read by key: \<^verbatim>\<open>row.get(key)\<close> is \<^verbatim>\<open>None\<close> when
  the row has no such key.
\<close>

type_synonym metadata_row = "(string \<times> cell) list"

definition row_get :: "metadata_row \<Rightarrow> string \<Rightarrow> cell" where
  "row_get row key = (case map_of row key of None \<Rightarrow> Null | Some v \<Rightarrow> v)"

text \<open>
  \<^verbatim>\<open>_show_object_metadata\<close>: an empty result and a \<^verbatim>\<open>DbtDatabaseError\<close> both give
  \<^verbatim>\<open>None\<close>. The first argument is
  \<^verbatim>\<open>self.execute_macro(SHOW_OBJECT_METADATA_MACRO_NAME, kwargs={"relation": ...})\<close>.
\<close>

definition show_object_metadata ::
  "(relation \<Rightarrow> exn + metadata_row list) \<Rightarrow> relation \<Rightarrow> exn + metadata_row list option"
where
  "show_object_metadata execute_macro relation =
     (case execute_macro relation of
        Inl (DbtDatabaseError _) \<Rightarrow> Inr None
      | Inl exc \<Rightarrow> Inl exc
      | Inr results \<Rightarrow> (if length results = 0 then Inr None else Inr (Some results)))"

record table_metadata =
  tm_type :: cell
  tm_schema :: cell
  tm_name :: cell
  tm_database :: cell
  tm_comment :: cell
  tm_owner :: cell

record stats_item =
  stats_id :: string
  stats_label :: string
  stats_value :: cell
  stats_include :: bool
  stats_description :: string

record column_metadata =
  cm_type :: string
  cm_index :: nat
  cm_name :: string

record catalog_table =
  ct_metadata :: table_metadata
  ct_columns :: "string \<rightharpoonup> column_metadata"
  ct_stats :: "(string \<times> stats_item) list"

text \<open>
  The dictionary comprehension over \<^verbatim>\<open>enumerate(columns)\<close>: a later column of the same
  name replaces the earlier entry.
\<close>

fun catalog_columns :: "nat \<Rightarrow> snowflake_column list \<Rightarrow> (string \<rightharpoonup> column_metadata)" where
  "catalog_columns i [] = Map.empty"
| "catalog_columns i (c # cs) =
     (Map.empty(column c \<mapsto> \<lparr>cm_type = dtype c, cm_index = i + 1, cm_name = column c\<rparr>))
       ++ catalog_columns (i + 1) cs"

text \<open>
  \<^verbatim>\<open>get_catalog_for_single_relation\<close>. \<^verbatim>\<open>as_case_sensitive\<close> is the relation's own
  method, declared outside \<^verbatim>\<open>impl.py\<close>, and the two collaborators are those of
  \<^verbatim>\<open>_show_object_metadata\<close> and \<^verbatim>\<open>get_columns_in_relation\<close>.
\<close>

definition get_catalog_for_single_relation ::
  "(relation \<Rightarrow> relation) \<Rightarrow> (relation \<Rightarrow> exn + metadata_row list) \<Rightarrow>
   (relation \<Rightarrow> exn + snowflake_column list) \<Rightarrow> relation \<Rightarrow> exn + catalog_table option"
where
  "get_catalog_for_single_relation as_case_sensitive execute_macro
       super_get_columns_in_relation relation =
     (case show_object_metadata execute_macro (as_case_sensitive relation) of
        Inl exc \<Rightarrow> Inl exc
      | Inr None \<Rightarrow> Inr None
      | Inr (Some []) \<Rightarrow> Inr None
      | Inr (Some (row # _)) \<Rightarrow>
          (let is_dynamic =
                 (row_get row ''is_dynamic'' = Str ''Y'' \<or> row_get row ''is_dynamic'' = Str ''YES'');
               kind = row_get row ''kind'';
               table_type =
                 (if is_dynamic \<and> kind = Str (upper (relation_type_value Table))
                  then Str (upper (relation_type_value DynamicTable))
                  else kind);
               is_view = (kind = Str (upper (relation_type_value View)));
               table_metadata =
                 \<lparr>tm_type = table_type,
                  tm_schema = row_get row ''schema_name'',
                  tm_name = row_get row ''name'',
                  tm_database = row_get row ''database_name'',
                  tm_comment = row_get row ''comment'',
                  tm_owner = row_get row ''owner''\<rparr>;
               stats_dict =
                 [(''has_stats'',
                   \<lparr>stats_id = ''has_stats'', stats_label = ''Has Stats?'',
                    stats_value = Bool True, stats_include = False,
                    stats_description =
                      ''Indicates whether there are statistics for this table''\<rparr>),
                  (''row_count'',
                   \<lparr>stats_id = ''row_count'', stats_label = ''Row Count'',
                    stats_value = row_get row ''rows'', stats_include = (\<not> is_view),
                    stats_description =
                      ''Number of rows in the table as reported by Snowflake''\<rparr>),
                  (''bytes'',
                   \<lparr>stats_id = ''bytes'', stats_label = ''Approximate Size'',
                    stats_value = row_get row ''bytes'', stats_include = (\<not> is_view),
                    stats_description = ''Size of the table as reported by Snowflake''\<rparr>)]
           in case get_columns_in_relation super_get_columns_in_relation relation of
                Inl exc \<Rightarrow> Inl exc
              | Inr columns \<Rightarrow>
                  Inr (Some \<lparr>ct_metadata = table_metadata,
                             ct_columns = catalog_columns 0 columns,
                             ct_stats = stats_dict\<rparr>)))"


section \<open>Catalog integrations\<close>

text \<open>
  The descriptor that registration is given (\<^verbatim>\<open>CatalogIntegrationConfig\<close>): its name and
  its default storage format.
\<close>

record catalog_integration_config =
  cfg_name :: string
  cfg_table_format :: storage_format

text \<open>The registered integration (\<^verbatim>\<open>CatalogIntegration\<close>), built from a descriptor.\<close>

record catalog_integration =
  ci_name :: string
  ci_table_format :: storage_format

text \<open>
  Modelled from the spec: the registry of the base adapter, reached through
  \<^verbatim>\<open>super().add_catalog_integration\<close> and \<^verbatim>\<open>super().get_catalog_integration\<close>, is not
  in \<^verbatim>\<open>impl.py\<close>. The spec gives it two operations on a mapping from names to
  integrations: \<^verbatim>\<open>register(integration)\<close>, which enters the integration built from the
  descriptor under the descriptor's name and returns it, and \<^verbatim>\<open>lookup(name)\<close>, which
  fails with a not-found error if the name is absent.
\<close>

type_synonym registry = "string \<rightharpoonup> catalog_integration"

definition integration_of :: "catalog_integration_config \<Rightarrow> catalog_integration" where
  "integration_of cfg = \<lparr>ci_name = cfg_name cfg, ci_table_format = cfg_table_format cfg\<rparr>"

definition register :: "registry \<Rightarrow> catalog_integration_config \<Rightarrow> registry \<times> catalog_integration" where
  "register reg cfg = (reg(cfg_name cfg \<mapsto> integration_of cfg), integration_of cfg)"

definition lookup :: "registry \<Rightarrow> string \<Rightarrow> exn + catalog_integration" where
  "lookup reg name =
     (case reg name of
        None \<Rightarrow> Inl (DbtCatalogIntegrationNotFoundError name)
      | Some integration \<Rightarrow> Inr integration)"

text \<open>
  The state of one adapter instance together with the objects its callers hold. A
  descriptor object lives in the store \<open>objects\<close> and is referred to by its position;
  two references alias when they are the same position. \<open>catalog_integrations\<close> is the
  registry.
\<close>

record adapter =
  objects :: "catalog_integration_config list"
  catalog_integrations :: registry

text \<open>An adapter to evaluate on: two descriptors held by callers, an empty registry.\<close>

definition example_adapter :: adapter where
  "example_adapter =
     \<lparr>objects = [\<lparr>cfg_name = ''my_Catalog'', cfg_table_format = OpenTableFormat\<rparr>,
                 \<lparr>cfg_name = ''other'', cfg_table_format = Default\<rparr>],
      catalog_integrations = Map.empty\<rparr>"

text \<open>
  \<^verbatim>\<open>deepcopy(obj)\<close>: a new object with the fields of the old one, at a position that no
  reference held so far denotes.
\<close>

definition deepcopy :: "adapter \<Rightarrow> nat \<Rightarrow> adapter \<times> nat" where
  "deepcopy self ref =
     (self\<lparr>objects := objects self @ [objects self ! ref]\<rparr>, length (objects self))"

text \<open>
  \<^verbatim>\<open>add_catalog_integration\<close>: the argument is a reference to the caller's descriptor.
  The copy is taken, the name of the copy is overwritten with its upper-case form, and the
  copy is registered. A reference always denotes an object of the store; the guard only
  makes the function total.
\<close>

definition add_catalog_integration ::
  "adapter \<Rightarrow> nat \<Rightarrow> exn + (adapter \<times> catalog_integration)"
where
  "add_catalog_integration self catalog_integration =
     (if \<not> catalog_integration < length (objects self)
      then Inl (OtherException ''dangling reference'')
      else
        (let (self1, copy) = deepcopy self catalog_integration;
             obj = objects self1 ! copy;
             self2 = self1\<lparr>objects := (objects self1)[copy := obj\<lparr>cfg_name := upper (cfg_name obj)\<rparr>]\<rparr>;
             (reg, integration) = register (catalog_integrations self2) (objects self2 ! copy)
         in Inr (self2\<lparr>catalog_integrations := reg\<rparr>, integration)))"

text \<open>\<^verbatim>\<open>get_catalog_integration\<close>: the base lookup under the upper-case name.\<close>

definition get_catalog_integration :: "adapter \<Rightarrow> string \<Rightarrow> exn + catalog_integration" where
  "get_catalog_integration self name = lookup (catalog_integrations self) (upper name)"

text \<open>
  The model configuration (\<^verbatim>\<open>config.model\<close>): the catalog it declares, if any, and its
  other settings.
\<close>

record relation_config =
  declared_catalog :: "string option"
  settings :: "(string \<times> cell) list"

text \<open>A model configuration to evaluate on.\<close>

definition example_model :: relation_config where
  "example_model =
     \<lparr>declared_catalog = Some ''my_catalog'', settings = [(''materialized'', Str ''table'')]\<rparr>"

text \<open>
  Modelled from the spec: \<^verbatim>\<open>parse_model.catalog_name\<close> is not in \<^verbatim>\<open>impl.py\<close>; it reads
  the catalog that the model configuration declares explicitly, absent when it declares
  none.
\<close>

definition catalog_name :: "relation_config \<Rightarrow> string option" where
  "catalog_name model = declared_catalog model"

text \<open>
  Modelled from the spec: \<^verbatim>\<open>CatalogIntegration.build_relation\<close> is not in \<^verbatim>\<open>impl.py\<close>;
  the integration constructs the relation for its backend and passes the model
  configuration through verbatim.
\<close>

record catalog_relation =
  cr_catalog_name :: string
  cr_table_format :: storage_format
  cr_model :: relation_config

definition build_relation :: "catalog_integration \<Rightarrow> relation_config \<Rightarrow> catalog_relation" where
  "build_relation integration model =
     \<lparr>cr_catalog_name = ci_name integration, cr_table_format = ci_table_format integration,
      cr_model = model\<rparr>"

text \<open>
  \<^verbatim>\<open>build_catalog_relation\<close>. The walrus test \<^verbatim>\<open>if catalog := ...\<close> is Python truth of
  the name: neither \<^verbatim>\<open>None\<close> nor the empty string.
\<close>

definition build_catalog_relation ::
  "adapter \<Rightarrow> relation_config \<Rightarrow> exn + catalog_relation option"
where
  "build_catalog_relation self model =
     (case catalog_name model of
        None \<Rightarrow> Inr None
      | Some catalog \<Rightarrow>
          (if catalog = [] then Inr None
           else
             (case get_catalog_integration self catalog of
                Inl exc \<Rightarrow> Inl exc
              | Inr catalog_integration \<Rightarrow> Inr (Some (build_relation catalog_integration model)))))"


section \<open>Schema drift reconciliation\<close>

text \<open>
  Modelled from the spec: the schema diff engine behind \<^verbatim>\<open>on_schema_change\<close> is not
  among the source files; only its functional tests are. Everything in this section
  follows the spec's data model and its algorithm for
  \<^verbatim>\<open>reconcile(existing_columns, incoming_columns, policy)\<close>.
\<close>

record table_column =
  col_name :: string
  col_data_type :: string
  col_ordinal :: int

datatype schema_change_policy = Ignore | AppendNewColumns | SyncAllColumns | Fail

record column_diff =
  added :: "table_column list"
  removed :: "table_column list"
  changed :: "(table_column \<times> table_column) list"

text \<open>
  Modelled from the spec: the engine's side of the identifier normaliser, \<^verbatim>\<open>normalize(identifier,
  quoting_policy, engine_casing_rule)\<close>, with the casing rule one of the folds or none.
\<close>

datatype casing_rule = FoldUpper | FoldLower | Preserve

record engine =
  engine_quote_character :: char
  engine_quoting :: bool
  engine_casing_rule :: casing_rule
  engine_reserved_words :: "string list"

fun fold_case :: "casing_rule \<Rightarrow> string \<Rightarrow> string" where
  "fold_case FoldUpper s = upper s"
| "fold_case FoldLower s = lower s"
| "fold_case Preserve s = s"

definition normalize :: "engine \<Rightarrow> string \<Rightarrow> string" where
  "normalize eng ident =
     (if startswith ident [engine_quote_character eng] \<and> endswith ident [engine_quote_character eng]
      then strip ident [engine_quote_character eng]
      else if \<not> engine_quoting eng then fold_case (engine_casing_rule eng) ident
      else ident)"

definition normalized_names :: "engine \<Rightarrow> table_column list \<Rightarrow> string list" where
  "normalized_names eng cols = map (\<lambda>c. normalize eng (col_name c)) cols"

text \<open>
  Modelled from the spec: steps 1 to 4 of the algorithm. \<open>added\<close> are the incoming columns
  whose normalised name is absent from the existing ones, \<open>removed\<close> the existing columns
  whose normalised name is absent from the incoming ones, both in declaration order;
  changes of type are not detected.
\<close>

definition compute_diff :: "engine \<Rightarrow> table_column list \<Rightarrow> table_column list \<Rightarrow> column_diff" where
  "compute_diff eng existing incoming =
     \<lparr>added = filter (\<lambda>c. normalize eng (col_name c) \<notin> set (normalized_names eng existing)) incoming,
      removed = filter (\<lambda>c. normalize eng (col_name c) \<notin> set (normalized_names eng incoming)) existing,
      changed = []\<rparr>"

text \<open>
  Modelled from the spec: a structural operation names a column and an add or drop intent.
  The statement emitted for it quotes the column identifier whenever the name collides with
  a reserved word or holds a character other than a letter, a digit or an underscore (a
  hyphen, for one).
\<close>

datatype intent = Add | Drop

record structural_operation =
  op_intent :: intent
  op_column :: table_column
  op_identifier :: string

definition plain_chars :: string where
  "plain_chars = ascii_lowercase @ ascii_uppercase @ ''0123456789_''"

definition requires_quoting :: "engine \<Rightarrow> string \<Rightarrow> bool" where
  "requires_quoting eng n =
     (lower n \<in> set (map lower (engine_reserved_words eng)) \<or> (\<exists>ch \<in> set n. ch \<notin> set plain_chars))"

definition emit_identifier :: "engine \<Rightarrow> string \<Rightarrow> string" where
  "emit_identifier eng n =
     (if requires_quoting eng n then engine_quote_character eng # n @ [engine_quote_character eng]
      else n)"

definition structural_op :: "engine \<Rightarrow> intent \<Rightarrow> table_column \<Rightarrow> structural_operation" where
  "structural_op eng i c =
     \<lparr>op_intent = i, op_column = c, op_identifier = emit_identifier eng (col_name c)\<rparr>"

text \<open>
  Modelled from the spec: the drift error. Its message holds the phrase on which the
  functional test keys, and it carries the diff as context.
\<close>

definition out_of_sync_phrase :: string where
  "out_of_sync_phrase =
     ''The source and target schemas on this incremental model are out of sync!''"

datatype schema_drift_error = SchemaDriftError string column_diff

fun error_message :: "schema_drift_error \<Rightarrow> string" where
  "error_message (SchemaDriftError msg d) = msg"

datatype action = Converged "structural_operation list" | DriftReported schema_drift_error

text \<open>Modelled from the spec: step 5, the action selected by the policy.\<close>

fun select_action :: "engine \<Rightarrow> column_diff \<Rightarrow> schema_change_policy \<Rightarrow> action" where
  "select_action eng d Ignore = Converged []"
| "select_action eng d AppendNewColumns = Converged (map (structural_op eng Add) (added d))"
| "select_action eng d SyncAllColumns =
     Converged (map (structural_op eng Add) (added d) @ map (structural_op eng Drop) (removed d))"
| "select_action eng d Fail =
     (if added d \<noteq> [] \<or> removed d \<noteq> [] then DriftReported (SchemaDriftError out_of_sync_phrase d)
      else Converged [])"

definition reconcile ::
  "engine \<Rightarrow> table_column list \<Rightarrow> table_column list \<Rightarrow> schema_change_policy \<Rightarrow> column_diff \<times> action"
where
  "reconcile eng existing_columns incoming_columns policy =
     (let d = compute_diff eng existing_columns incoming_columns
      in (d, select_action eng d policy))"

text \<open>
  Modelled from the spec: the execution collaborator takes one structural operation at a
  time. An addition appends the column to the stored relation; a drop removes the column of
  that (normalised) name.
\<close>

fun execute :: "engine \<Rightarrow> table_column list \<Rightarrow> structural_operation \<Rightarrow> table_column list" where
  "execute eng cols op =
     (case op_intent op of
        Add \<Rightarrow> cols @ [op_column op]
      | Drop \<Rightarrow>
          filter (\<lambda>c. normalize eng (col_name c) \<noteq> normalize eng (col_name (op_column op))) cols)"

definition execute_all :: "engine \<Rightarrow> table_column list \<Rightarrow> structural_operation list \<Rightarrow> table_column list" where
  "execute_all eng cols ops = foldl (execute eng) cols ops"

text \<open>
  Modelled from the spec: one incremental run. The diff is computed, the policy applied, and
  the run ends converged, with the operations executed in order, or with the drift reported
  and nothing executed. The result is the stored relation's columns after the run and the
  error, if any.
\<close>

definition incremental_run ::
  "engine \<Rightarrow> table_column list \<Rightarrow> table_column list \<Rightarrow> schema_change_policy \<Rightarrow>
   table_column list \<times> schema_drift_error option"
where
  "incremental_run eng existing_columns incoming_columns policy =
     (case snd (reconcile eng existing_columns incoming_columns policy) of
        Converged ops \<Rightarrow> (execute_all eng existing_columns ops, None)
      | DriftReported err \<Rightarrow> (existing_columns, Some err))"


text \<open>An engine and columns to evaluate on.\<close>

definition example_engine :: engine where
  "example_engine =
     \<lparr>engine_quote_character = CHR 0x22, engine_quoting = False,
      engine_casing_rule = FoldLower, engine_reserved_words = [''select'', ''order'']\<rparr>"

definition example_column :: "string \<Rightarrow> table_column" where
  "example_column n = \<lparr>col_name = n, col_data_type = ''string'', col_ordinal = 0\<rparr>"

section \<open>Identifier normalisation: what each part becomes\<close>

lemma startswith_single: "startswith s [q] \<longleftrightarrow> s \<noteq> [] \<and> hd s = q"
  by (cases s) (auto simp: startswith_def)

lemma endswith_single: "endswith s [q] \<longleftrightarrow> s \<noteq> [] \<and> last s = q"
proof (cases s rule: rev_cases)
  case Nil
  then show ?thesis by (simp add: endswith_def)
next
  case (snoc ys y)
  then show ?thesis by (auto simp: endswith_def)
qed

lemma is_quoted_iff:
  "is_quoted self (Some s) \<longleftrightarrow> s \<noteq> [] \<and> hd s = quote_character self \<and> last s = quote_character self"
  by (auto simp: is_quoted_def startswith_single endswith_single)

lemma is_quoted_None: "\<not> is_quoted self None"
  by (simp add: is_quoted_def)

lemma normalized_part:
  "(if is_quoted self part then map_option (strip_quotes self) part
    else if part \<noteq> None \<and> \<not> flag then map_option upper part
    else part) = map_option (spec_normalize (quote_character self) flag) part"
proof (cases part)
  case None
  then show ?thesis by (simp add: is_quoted_None)
next
  case (Some s)
  then show ?thesis
    by (simp add: is_quoted_iff spec_normalize_def strip_quotes_def)
qed

lemma make_match_kwargs_eq:
  "make_match_kwargs self database schema identifier =
     filter_null_values
       [(''identifier'',
           map_option (spec_normalize (quote_character self)
             (quote_identifier (config_quoting self))) identifier),
        (''schema'',
           map_option (spec_normalize (quote_character self)
             (quote_schema (config_quoting self))) schema),
        (''database'',
           map_option (spec_normalize (quote_character self)
             (quote_database (config_quoting self))) database)]"
  unfolding make_match_kwargs_def Let_def normalized_part ..


subsection \<open>What \<^verbatim>\<open>strip\<close> removes\<close>

lemma takeWhile_eq_replicate:
  "takeWhile (\<lambda>c. c \<in> set [q]) s = replicate (length (takeWhile (\<lambda>c. c \<in> set [q]) s)) q"
  by (induction s) auto

lemma rev_dropWhile_split:
  "xs = rev (dropWhile P (rev xs)) @ rev (takeWhile P (rev xs))"
proof -
  have "rev (rev xs) = rev (takeWhile P (rev xs) @ dropWhile P (rev xs))"
    by (simp only: takeWhile_dropWhile_id)
  then show ?thesis by (simp only: rev_rev_ident rev_append)
qed

lemma strip_suffix_split:
  "dropWhile (\<lambda>c. c \<in> set [q]) s =
     strip s [q] @ rev (takeWhile (\<lambda>c. c \<in> set [q]) (rev (dropWhile (\<lambda>c. c \<in> set [q]) s)))"
  unfolding strip_def by (rule rev_dropWhile_split)

lemma strip_decomposition:
  "\<exists>i j. s = replicate i q @ strip s [q] @ replicate j q"
proof -
  let ?P = "\<lambda>c. c \<in> set [q]"
  let ?t = "dropWhile ?P s"
  have "rev (takeWhile ?P (rev ?t)) = replicate (length (takeWhile ?P (rev ?t))) q"
    using takeWhile_eq_replicate [of q "rev ?t"] by (metis rev_replicate)
  then have t: "?t = strip s [q] @ replicate (length (takeWhile ?P (rev ?t))) q"
    using strip_suffix_split [of q s] by simp
  have "s = takeWhile ?P s @ ?t" by simp
  then have "s = replicate (length (takeWhile ?P s)) q @ ?t"
    using takeWhile_eq_replicate [of q s] by metis
  with t have "s = replicate (length (takeWhile ?P s)) q @ strip s [q]
      @ replicate (length (takeWhile ?P (rev ?t))) q"
    by metis
  then show ?thesis by blast
qed

lemma strip_no_outer_quote:
  assumes "strip s [q] \<noteq> []"
  shows "hd (strip s [q]) \<noteq> q \<and> last (strip s [q]) \<noteq> q"
proof -
  let ?P = "\<lambda>c. c \<in> set [q]"
  let ?t = "dropWhile ?P s"
  let ?u = "dropWhile ?P (rev ?t)"
  have r: "strip s [q] = rev ?u" by (simp add: strip_def)
  with assms have u: "?u \<noteq> []" by simp
  then have "\<not> ?P (hd ?u)" by (rule hd_dropWhile)
  then have l: "last (strip s [q]) \<noteq> q" using r u by (simp add: last_rev)
  have t: "?t = strip s [q] @ rev (takeWhile ?P (rev ?t))" by (rule strip_suffix_split)
  then have tn: "?t \<noteq> []" using assms by (metis append_is_Nil_conv)
  then have "\<not> ?P (hd ?t)" by (rule hd_dropWhile)
  moreover have "hd ?t = hd (strip s [q])" using t assms by (metis hd_append2)
  ultimately show ?thesis using l by simp
qed

lemma map_of_kwargs:
  "map_of (filter_null_values [(''identifier'', a), (''schema'', b), (''database'', c)]) ''identifier'' = a"
  "map_of (filter_null_values [(''identifier'', a), (''schema'', b), (''database'', c)]) ''schema'' = b"
  "map_of (filter_null_values [(''identifier'', a), (''schema'', b), (''database'', c)]) ''database'' = c"
  by (cases a; cases b; cases c; simp)+

lemma kwargs_identifier:
  "map_of (make_match_kwargs self database schema identifier) ''identifier'' =
     map_option (spec_normalize (quote_character self) (quote_identifier (config_quoting self))) identifier"
  unfolding make_match_kwargs_def Let_def normalized_part by (rule map_of_kwargs)

lemma kwargs_schema:
  "map_of (make_match_kwargs self database schema identifier) ''schema'' =
     map_option (spec_normalize (quote_character self) (quote_schema (config_quoting self))) schema"
  unfolding make_match_kwargs_def Let_def normalized_part by (rule map_of_kwargs)

lemma kwargs_database:
  "map_of (make_match_kwargs self database schema identifier) ''database'' =
     map_option (spec_normalize (quote_character self) (quote_database (config_quoting self))) database"
  unfolding make_match_kwargs_def Let_def normalized_part by (rule map_of_kwargs)

text \<open>
  Claim C10. A part of \<^verbatim>\<open>_make_match_kwargs\<close> that starts and ends with the quote
  character loses every leading and every trailing quote character, not one pair: the
  part is some quote characters, the result, and some quote characters, and the result
  neither starts nor ends with a quote character. The string that is the quote character
  alone counts as quoted and becomes the empty string.
\<close>

theorem quoted_part_loses_every_outer_quote:
  assumes "is_quoted self (Some s)"
  shows "\<exists>r. (\<exists>i j. s = replicate i (quote_character self) @ r @ replicate j (quote_character self))
           \<and> (r = [] \<or> (hd r \<noteq> quote_character self \<and> last r \<noteq> quote_character self))
           \<and> map_of (make_match_kwargs self database schema (Some s)) ''identifier'' = Some r
           \<and> map_of (make_match_kwargs self database (Some s) identifier) ''schema'' = Some r
           \<and> map_of (make_match_kwargs self (Some s) schema identifier) ''database'' = Some r
           \<and> is_quoted self (Some [quote_character self])
           \<and> make_match_kwargs self None None (Some [quote_character self]) = [(''identifier'', [])]"
proof -
  let ?q = "quote_character self"
  let ?r = "strip s [?q]"
  from assms have n: "\<And>f. spec_normalize ?q f s = ?r"
    by (simp add: is_quoted_iff spec_normalize_def)
  have d: "\<exists>i j. s = replicate i ?q @ ?r @ replicate j ?q" by (rule strip_decomposition)
  have e: "?r = [] \<or> (hd ?r \<noteq> ?q \<and> last ?r \<noteq> ?q)" using strip_no_outer_quote by blast
  have one: "is_quoted self (Some [?q])" by (simp add: is_quoted_iff)
  have "spec_normalize ?q f [?q] = []" for f
    by (simp add: spec_normalize_def strip_def)
  then have single: "make_match_kwargs self None None (Some [?q]) = [(''identifier'', [])]"
    by (simp add: make_match_kwargs_eq)
  show ?thesis
    using d e one single by (intro exI [of _ ?r]) (simp add: kwargs_identifier kwargs_schema kwargs_database n)
qed


theorem quoted_part_loses_every_outer_quote_witness:
  "is_quoted example_config (Some (CHR 0x22 # CHR 0x22 # ''X'' @ [CHR 0x22, CHR 0x22]))
   \<and> map_of (make_match_kwargs example_config None None
        (Some (CHR 0x22 # CHR 0x22 # ''X'' @ [CHR 0x22, CHR 0x22]))) ''identifier'' = Some ''X''
   \<and> (\<exists>i j. CHR 0x22 # CHR 0x22 # ''X'' @ [CHR 0x22, CHR 0x22]
          = replicate i (CHR 0x22) @ ''X'' @ replicate j (CHR 0x22))"
proof -
  let ?s = "CHR 0x22 # CHR 0x22 # ''X'' @ [CHR 0x22, CHR 0x22]"
  have q: "is_quoted example_config (Some ?s)"
    by (simp add: is_quoted_iff example_config_def)
  have v: "map_of (make_match_kwargs example_config None None (Some ?s)) ''identifier'' = Some ''X''"
    by (simp add: make_match_kwargs_def Let_def is_quoted_iff is_quoted_None strip_quotes_def
        strip_def example_config_def)
  from quoted_part_loses_every_outer_quote [OF q, where database = None and schema = None]
  obtain r where d: "\<exists>i j. ?s = replicate i (quote_character example_config) @ r
        @ replicate j (quote_character example_config)"
    and m: "map_of (make_match_kwargs example_config None None (Some ?s)) ''identifier'' = Some r"
    by blast
  from m v have "r = ''X''" by simp
  with d have "\<exists>i j. ?s = replicate i (CHR 0x22) @ ''X'' @ replicate j (CHR 0x22)"
    by (simp add: example_config_def)
  with q v show ?thesis by blast
qed

section \<open>Listing: absence is an empty result\<close>

lemma str_contains_iff: "str_contains needle s \<longleftrightarrow> (\<exists>p t. s = p @ needle @ t)"
proof (induction s)
  case Nil
  then show ?case by auto
next
  case (Cons c cs)
  show ?case
  proof
    assume "str_contains needle (c # cs)"
    then consider "prefix needle (c # cs)" | "str_contains needle cs" by auto
    then show "\<exists>p t. c # cs = p @ needle @ t"
    proof cases
      case 1
      then obtain t where "c # cs = needle @ t" by (auto simp: prefix_def)
      then have "c # cs = [] @ needle @ t" by simp
      then show ?thesis by blast
    next
      case 2
      with Cons.IH obtain p t where "cs = p @ needle @ t" by blast
      then have "c # cs = (c # p) @ needle @ t" by simp
      then show ?thesis by blast
    qed
  next
    assume "\<exists>p t. c # cs = p @ needle @ t"
    then obtain p t where e: "c # cs = p @ needle @ t" by blast
    show "str_contains needle (c # cs)"
    proof (cases p)
      case Nil
      with e have "prefix needle (c # cs)" by (simp add: prefix_def)
      then show ?thesis by simp
    next
      case (Cons a p')
      with e have "cs = p' @ needle @ t" by simp
      with Cons.IH have "str_contains needle cs" by blast
      then show ?thesis by simp
    qed
  qed
qed

lemma str_contains_self: "str_contains s s"
  using str_contains_iff [of s s] by (metis append_Nil append_Nil2)

text \<open>
  Claim C3. When the metadata fetch of \<^verbatim>\<open>list_relations_without_caching\<close> fails with
  a database error whose text holds the code \<^verbatim>\<open>002043 (02000)\<close>, the result is the
  empty list; when the column listing of \<^verbatim>\<open>get_columns_in_relation\<close> fails with a
  database error whose text holds \<^verbatim>\<open>does not exist or not authorized\<close>, the result is
  the empty list. Every other exception, a database error without that text included,
  leaves the method unchanged.
\<close>

theorem not_found_gives_empty_listing:
  "(execute_macro schema_relation = Inl (DbtDatabaseError msg) \<and> str_contains ''002043 (02000)'' msg
      \<longrightarrow> list_relations_without_caching execute_macro schema_relation = Inr [])
   \<and> (execute_macro schema_relation = Inl exc
        \<and> \<not> (\<exists>m. exc = DbtDatabaseError m \<and> str_contains ''002043 (02000)'' m)
      \<longrightarrow> list_relations_without_caching execute_macro schema_relation = Inl exc)
   \<and> (super_get_columns_in_relation relation = Inl (DbtDatabaseError msg)
        \<and> str_contains ''does not exist or not authorized'' msg
      \<longrightarrow> get_columns_in_relation super_get_columns_in_relation relation = Inr [])
   \<and> (super_get_columns_in_relation relation = Inl exc
        \<and> \<not> (\<exists>m. exc = DbtDatabaseError m \<and> str_contains ''does not exist or not authorized'' m)
      \<longrightarrow> get_columns_in_relation super_get_columns_in_relation relation = Inl exc)"
  by (auto simp: list_relations_without_caching_def get_columns_in_relation_def split: exn.splits)

theorem not_found_gives_empty_listing_witness:
  "str_contains ''002043 (02000)'' ''002043 (02000): SQL compilation error''
   \<and> list_relations_without_caching
        (\<lambda>r. Inl (DbtDatabaseError ''002043 (02000): SQL compilation error'')) example_relation = Inr []
   \<and> list_relations_without_caching
        (\<lambda>r. Inl (DbtDatabaseError ''000606 (57P03): No active warehouse'')) example_relation
       = Inl (DbtDatabaseError ''000606 (57P03): No active warehouse'')
   \<and> str_contains ''does not exist or not authorized'' ''Table T does not exist or not authorized.''
   \<and> get_columns_in_relation
        (\<lambda>r. Inl (DbtDatabaseError ''Table T does not exist or not authorized.'')) example_relation = Inr []
   \<and> get_columns_in_relation
        (\<lambda>r. Inl (DbtRuntimeError ''connection lost'')) example_relation
       = Inl (DbtRuntimeError ''connection lost'')"
  using
    not_found_gives_empty_listing [of
      "\<lambda>r. Inl (DbtDatabaseError ''002043 (02000): SQL compilation error'')" example_relation
      "''002043 (02000): SQL compilation error''"
      "DbtRuntimeError ''connection lost''"
      "\<lambda>r. Inl (DbtRuntimeError ''connection lost'')" example_relation]
    not_found_gives_empty_listing [of
      "\<lambda>r. Inl (DbtDatabaseError ''000606 (57P03): No active warehouse'')" example_relation
      "''Table T does not exist or not authorized.''"
      "DbtDatabaseError ''000606 (57P03): No active warehouse''"
      "\<lambda>r. Inl (DbtDatabaseError ''Table T does not exist or not authorized.'')" example_relation]
  by simp


section \<open>Classifying a listing row\<close>

lemma get_relation_type_cases:
  "get_relation_type v =
     (if v = ''table'' then Inr Table
      else if v = ''view'' then Inr View
      else if v = ''cte'' then Inr CTE
      else if v = ''external'' then Inr External
      else if v = ''dynamic_table'' then Inr DynamicTable
      else Inl (ValueError v))"
  by (simp add: get_relation_type_def relation_type_members_def)

lemma get_relation_type_value: "get_relation_type (relation_type_value k) = Inr k"
  by (cases k) (simp_all add: get_relation_type_cases)

lemma get_relation_type_unknown:
  "(\<forall>k. v \<noteq> relation_type_value k) \<Longrightarrow> get_relation_type v = Inl (ValueError v)"
proof -
  assume a: "\<forall>k. v \<noteq> relation_type_value k"
  from a [rule_format, of Table] a [rule_format, of View] a [rule_format, of CTE]
    a [rule_format, of External] a [rule_format, of DynamicTable]
  show ?thesis by (simp add: get_relation_type_cases)
qed

lemma lower_relation_type_value: "lower (relation_type_value k) = relation_type_value k"
  by (cases k) (simp_all add: lower_def lower_char_def ascii_uppercase_def ascii_lowercase_def)

lemma resolve_kind_known: "lower s = relation_type_value k \<Longrightarrow> resolve_kind s = k"
  by (simp add: resolve_kind_def get_relation_type_value)

lemma resolve_kind_unknown: "(\<forall>k. lower s \<noteq> relation_type_value k) \<Longrightarrow> resolve_kind s = External"
  by (simp add: resolve_kind_def get_relation_type_unknown)

lemma parse_string_kind:
  "parse_list_relations_result [database, schema, identifier, Str s, is_dynamic, is_iceberg] =
     Inr \<lparr>rel_database = database, rel_schema = schema, rel_identifier = identifier,
          rel_type = (if resolve_kind s = Table \<and> is_dynamic = Str ''Y'' then DynamicTable
                      else resolve_kind s),
          rel_table_format =
            (if is_iceberg = Str ''Y'' \<or> is_iceberg = Str ''YES'' then ICEBERG_TABLE_FORMAT
             else INFO_SCHEMA_TABLE_FORMAT),
          rel_quote_policy =
            \<lparr>quote_database = True, quote_schema = True, quote_identifier = True\<rparr>\<rparr>"
  by (simp add: resolve_kind_def get_relation_type_cases Let_def)

text \<open>
  Claim C6. Classifying a listing row whose relation type is a string never raises. A
  string that matches a member's value without regard to case resolves to that member
  (a resolved \<^verbatim>\<open>Table\<close> whose dynamic flag is \<^verbatim>\<open>"Y"\<close> being classified
  \<^verbatim>\<open>DynamicTable\<close>), and every string that matches no member resolves to
  \<^verbatim>\<open>External\<close>.
\<close>

theorem unknown_relation_type_is_external:
  "\<exists>r. parse_list_relations_result [database, schema, identifier, Str s, is_dynamic, is_iceberg] = Inr r
     \<and> (\<forall>k. lower s = lower (relation_type_value k) \<longrightarrow>
           rel_type r = (if k = Table \<and> is_dynamic = Str ''Y'' then DynamicTable else k))
     \<and> ((\<forall>k. lower s \<noteq> lower (relation_type_value k)) \<longrightarrow> rel_type r = External)"
  unfolding parse_string_kind
  by (auto simp: lower_relation_type_value resolve_kind_known resolve_kind_unknown)

theorem unknown_relation_type_is_external_witness:
  "(\<exists>r. parse_list_relations_result
           [Str ''DB'', Str ''SCH'', Str ''T'', Str ''View'', Str ''N'', Str ''N''] = Inr r
         \<and> rel_type r = View)
   \<and> (\<exists>r. parse_list_relations_result
           [Str ''DB'', Str ''SCH'', Str ''T'', Str ''EVENT TABLE'', Str ''N'', Str ''N''] = Inr r
         \<and> rel_type r = External)"
proof -
  have known: "lower ''View'' = lower (relation_type_value View)"
    by (simp add: lower_def lower_char_def ascii_uppercase_def ascii_lowercase_def)
  have unknown: "\<forall>k. lower ''EVENT TABLE'' \<noteq> lower (relation_type_value k)"
  proof
    fix k
    show "lower ''EVENT TABLE'' \<noteq> lower (relation_type_value k)"
      by (cases k) (simp_all add: lower_def lower_char_def ascii_uppercase_def ascii_lowercase_def)
  qed
  from unknown_relation_type_is_external
    [of "Str ''DB''" "Str ''SCH''" "Str ''T''" "''View''" "Str ''N''" "Str ''N''"] known
  have a: "\<exists>r. parse_list_relations_result
           [Str ''DB'', Str ''SCH'', Str ''T'', Str ''View'', Str ''N'', Str ''N''] = Inr r
         \<and> rel_type r = View"
    by fastforce
  from unknown_relation_type_is_external
    [of "Str ''DB''" "Str ''SCH''" "Str ''T''" "''EVENT TABLE''" "Str ''N''" "Str ''N''"] unknown
  have b: "\<exists>r. parse_list_relations_result
           [Str ''DB'', Str ''SCH'', Str ''T'', Str ''EVENT TABLE'', Str ''N'', Str ''N''] = Inr r
         \<and> rel_type r = External"
    by blast
  from a b show ?thesis by blast
qed


section \<open>The dynamic-table override\<close>

text \<open>
  Claim C4, as stated, fails: a row whose type resolves to \<^verbatim>\<open>Table\<close> and whose dynamic
  flag is the boolean \<^verbatim>\<open>True\<close> is classified \<^verbatim>\<open>Table\<close>, not
  \<^verbatim>\<open>DynamicTable\<close>. Both methods compare the flag with strings only.
\<close>

theorem dynamic_flag_true_keeps_table:
  "parse_list_relations_result
     [Str ''DB'', Str ''SCH'', Str ''T'', Str ''TABLE'', Bool True, Str ''N''] =
   Inr \<lparr>rel_database = Str ''DB'', rel_schema = Str ''SCH'', rel_identifier = Str ''T'',
        rel_type = Table, rel_table_format = Default,
        rel_quote_policy =
          \<lparr>quote_database = True, quote_schema = True, quote_identifier = True\<rparr>\<rparr>"
  by (simp add: parse_string_kind resolve_kind_def get_relation_type_cases lower_def
      lower_char_def ascii_uppercase_def ascii_lowercase_def INFO_SCHEMA_TABLE_FORMAT_def)

text \<open>
  The listing compares the flag with \<^verbatim>\<open>"Y"\<close> alone, whereas the catalog entry of a
  single relation (and the iceberg flag of the listing itself) also accepts \<^verbatim>\<open>"YES"\<close>:
  a \<^verbatim>\<open>"YES"\<close> flag leaves a listed table a \<^verbatim>\<open>Table\<close>.
\<close>

lemma dynamic_flag_YES_keeps_table_in_listing:
  "parse_list_relations_result
     [Str ''DB'', Str ''SCH'', Str ''T'', Str ''TABLE'', Str ''YES'', Str ''N''] =
   Inr \<lparr>rel_database = Str ''DB'', rel_schema = Str ''SCH'', rel_identifier = Str ''T'',
        rel_type = Table, rel_table_format = Default,
        rel_quote_policy =
          \<lparr>quote_database = True, quote_schema = True, quote_identifier = True\<rparr>\<rparr>"
  by (simp add: parse_string_kind resolve_kind_def get_relation_type_cases lower_def
      lower_char_def ascii_uppercase_def ascii_lowercase_def INFO_SCHEMA_TABLE_FORMAT_def)

lemma upper_table_values:
  "upper ''table'' = ''TABLE''"
  "upper ''dynamic_table'' = ''DYNAMIC_TABLE''"
  "upper ''view'' = ''VIEW''"
  by (simp_all add: upper_def upper_char_def ascii_uppercase_def ascii_lowercase_def)

lemma catalog_table_type:
  assumes "execute_macro (as_case_sensitive relation) = Inr (row # rest)"
    and "get_columns_in_relation super_get_columns_in_relation relation = Inr columns"
  shows "\<exists>t. get_catalog_for_single_relation as_case_sensitive execute_macro
               super_get_columns_in_relation relation = Inr (Some t)
           \<and> tm_type (ct_metadata t) =
               (if (row_get row ''is_dynamic'' = Str ''Y'' \<or> row_get row ''is_dynamic'' = Str ''YES'')
                   \<and> row_get row ''kind'' = Str ''TABLE''
                then Str ''DYNAMIC_TABLE'' else row_get row ''kind'')"
  using assms
  by (simp add: get_catalog_for_single_relation_def show_object_metadata_def Let_def
      upper_table_values)

text \<open>
  Claim C4, amended. For a listing row whose relation type is a string: when the resolved
  kind is \<^verbatim>\<open>Table\<close> and the dynamic flag is the string \<^verbatim>\<open>"Y"\<close>, the kind becomes
  \<^verbatim>\<open>DynamicTable\<close>; when the resolved kind is not \<^verbatim>\<open>Table\<close>, or the flag is neither
  \<^verbatim>\<open>"Y"\<close> nor \<^verbatim>\<open>"YES"\<close> (a boolean included), the resolved kind is kept. In the
  catalog entry of a single relation, the type is \<^verbatim>\<open>DYNAMIC_TABLE\<close> when the kind is
  \<^verbatim>\<open>TABLE\<close> and the flag is \<^verbatim>\<open>"Y"\<close> or \<^verbatim>\<open>"YES"\<close>, and the kind otherwise.
\<close>

theorem dynamic_table_override:
  assumes "execute_macro (as_case_sensitive relation) = Inr (row # rest)"
    and "get_columns_in_relation super_get_columns_in_relation relation = Inr columns"
  shows "(\<exists>r. parse_list_relations_result
                [database, schema, name, Str s, is_dynamic, is_iceberg] = Inr r
            \<and> (resolve_kind s = Table \<and> is_dynamic = Str ''Y'' \<longrightarrow> rel_type r = DynamicTable)
            \<and> (resolve_kind s \<noteq> Table \<or> (is_dynamic \<noteq> Str ''Y'' \<and> is_dynamic \<noteq> Str ''YES'')
                 \<longrightarrow> rel_type r = resolve_kind s))
       \<and> (\<exists>t. get_catalog_for_single_relation as_case_sensitive execute_macro
                 super_get_columns_in_relation relation = Inr (Some t)
            \<and> tm_type (ct_metadata t) =
                (if (row_get row ''is_dynamic'' = Str ''Y'' \<or> row_get row ''is_dynamic'' = Str ''YES'')
                    \<and> row_get row ''kind'' = Str ''TABLE''
                 then Str ''DYNAMIC_TABLE'' else row_get row ''kind''))"
proof -
  have "\<exists>r. parse_list_relations_result
                [database, schema, name, Str s, is_dynamic, is_iceberg] = Inr r
            \<and> (resolve_kind s = Table \<and> is_dynamic = Str ''Y'' \<longrightarrow> rel_type r = DynamicTable)
            \<and> (resolve_kind s \<noteq> Table \<or> (is_dynamic \<noteq> Str ''Y'' \<and> is_dynamic \<noteq> Str ''YES'')
                 \<longrightarrow> rel_type r = resolve_kind s)"
    unfolding parse_string_kind by auto
  moreover have "\<exists>t. get_catalog_for_single_relation as_case_sensitive execute_macro
                 super_get_columns_in_relation relation = Inr (Some t)
            \<and> tm_type (ct_metadata t) =
                (if (row_get row ''is_dynamic'' = Str ''Y'' \<or> row_get row ''is_dynamic'' = Str ''YES'')
                    \<and> row_get row ''kind'' = Str ''TABLE''
                 then Str ''DYNAMIC_TABLE'' else row_get row ''kind'')"
    by (rule catalog_table_type) (fact assms)+
  ultimately show ?thesis by blast
qed

theorem dynamic_table_override_witness:
  "(\<exists>r. parse_list_relations_result
          [Str ''DB'', Str ''SCH'', Str ''T'', Str ''TABLE'', Str ''Y'', Str ''N''] = Inr r
       \<and> rel_type r = DynamicTable)
   \<and> (\<exists>t. get_catalog_for_single_relation (\<lambda>r. r)
             (\<lambda>r. Inr [[(''kind'', Str ''TABLE''), (''is_dynamic'', Str ''YES'')]])
             (\<lambda>r. Inr []) example_relation = Inr (Some t)
       \<and> tm_type (ct_metadata t) = Str ''DYNAMIC_TABLE'')"
proof -
  have k: "resolve_kind ''TABLE'' = Table"
    by (simp add: resolve_kind_def get_relation_type_cases lower_def lower_char_def
        ascii_uppercase_def ascii_lowercase_def)
  have c: "get_columns_in_relation (\<lambda>r. Inr []) example_relation = Inr []"
    by (simp add: get_columns_in_relation_def)
  from dynamic_table_override
    [where execute_macro = "\<lambda>r. Inr [[(''kind'', Str ''TABLE''), (''is_dynamic'', Str ''YES'')]]"
       and as_case_sensitive = "\<lambda>r. r" and relation = example_relation
       and row = "[(''kind'', Str ''TABLE''), (''is_dynamic'', Str ''YES'')]" and rest = "[]"
       and super_get_columns_in_relation = "\<lambda>r. Inr []" and columns = "[]"
       and database = "Str ''DB''" and schema = "Str ''SCH''" and name = "Str ''T''"
       and s = "''TABLE''" and is_dynamic = "Str ''Y''" and is_iceberg = "Str ''N''"]
    k c
  show ?thesis by (simp add: row_get_def)
qed


section \<open>The catalog integration registry\<close>

lemma add_catalog_integration_eq:
  assumes "catalog_integration < length (objects self)"
  shows "add_catalog_integration self catalog_integration =
     Inr (\<lparr>objects = objects self @
              [(objects self ! catalog_integration)
                 \<lparr>cfg_name := upper (cfg_name (objects self ! catalog_integration))\<rparr>],
           catalog_integrations =
             (catalog_integrations self)
               (upper (cfg_name (objects self ! catalog_integration)) \<mapsto>
                  \<lparr>ci_name = upper (cfg_name (objects self ! catalog_integration)),
                   ci_table_format = cfg_table_format (objects self ! catalog_integration)\<rparr>)\<rparr>,
          \<lparr>ci_name = upper (cfg_name (objects self ! catalog_integration)),
           ci_table_format = cfg_table_format (objects self ! catalog_integration)\<rparr>)"
  using assms
  by (simp add: add_catalog_integration_def deepcopy_def register_def integration_of_def Let_def)

text \<open>
  Claim C7. Registration never mutates the caller's descriptor: the call returns, every
  object that existed before the call, the argument among them, has the fields it had
  (its name included), and the upper-case name was written to the copy, a new object, which
  is what the registry was given.
\<close>

theorem registration_leaves_argument_unchanged:
  assumes "catalog_integration < length (objects self)"
  shows "\<exists>self' integration.
           add_catalog_integration self catalog_integration = Inr (self', integration)
         \<and> objects self' ! catalog_integration = objects self ! catalog_integration
         \<and> take (length (objects self)) (objects self') = objects self
         \<and> cfg_name (objects self' ! length (objects self))
             = upper (cfg_name (objects self ! catalog_integration))
         \<and> ci_name integration = upper (cfg_name (objects self ! catalog_integration))"
  using assms by (simp add: add_catalog_integration_eq nth_append)

theorem registration_leaves_argument_unchanged_witness:
  "(0::nat) < length (objects example_adapter)
   \<and> (\<exists>self' integration.
         add_catalog_integration example_adapter 0 = Inr (self', integration)
       \<and> cfg_name (objects self' ! 0) = ''my_Catalog''
       \<and> cfg_name (objects self' ! length (objects example_adapter)) = ''MY_CATALOG''
       \<and> ci_name integration = ''MY_CATALOG'')"
proof -
  have h: "(0::nat) < length (objects example_adapter)"
    by (simp add: example_adapter_def)
  have u: "upper (cfg_name (objects example_adapter ! 0)) = ''MY_CATALOG''"
    by (simp add: example_adapter_def upper_def upper_char_def ascii_uppercase_def
        ascii_lowercase_def)
  have n: "cfg_name (objects example_adapter ! 0) = ''my_Catalog''"
    by (simp add: example_adapter_def)
  from registration_leaves_argument_unchanged [OF h] obtain self' integration where
    "add_catalog_integration example_adapter 0 = Inr (self', integration)"
    "objects self' ! 0 = objects example_adapter ! 0"
    "cfg_name (objects self' ! length (objects example_adapter))
       = upper (cfg_name (objects example_adapter ! 0))"
    "ci_name integration = upper (cfg_name (objects example_adapter ! 0))"
    by blast
  with h u n show ?thesis by auto
qed

text \<open>
  Claim C8. Names are upper-cased at registration and at lookup: after a descriptor named
  \<open>n\<close> is registered, \<^verbatim>\<open>get_catalog_integration(m)\<close> returns the registered integration
  for every \<open>m\<close> with \<^verbatim>\<open>m.upper() == n.upper()\<close>, whatever the casing of either, and it
  still does after a descriptor of another upper-cased name is registered.
\<close>

theorem registered_name_found_in_any_case:
  assumes "catalog_integration < length (objects self)"
    and "upper m = upper (cfg_name (objects self ! catalog_integration))"
  shows "\<exists>self' integration.
           add_catalog_integration self catalog_integration = Inr (self', integration)
         \<and> get_catalog_integration self' m = Inr integration
         \<and> ci_name integration = upper m
         \<and> (\<forall>other self'' integration'.
               other < length (objects self')
               \<and> upper (cfg_name (objects self' ! other)) \<noteq> upper m
               \<and> add_catalog_integration self' other = Inr (self'', integration')
               \<longrightarrow> get_catalog_integration self'' m = Inr integration)"
proof -
  let ?n = "upper (cfg_name (objects self ! catalog_integration))"
  let ?i = "\<lparr>ci_name = ?n, ci_table_format = cfg_table_format (objects self ! catalog_integration)\<rparr>"
  let ?self' = "\<lparr>objects = objects self @ [(objects self ! catalog_integration)\<lparr>cfg_name := ?n\<rparr>],
                 catalog_integrations = (catalog_integrations self)(?n \<mapsto> ?i)\<rparr>"
  have a: "add_catalog_integration self catalog_integration = Inr (?self', ?i)"
    using assms(1) by (rule add_catalog_integration_eq)
  have g: "get_catalog_integration ?self' m = Inr ?i"
    using assms(2) by (simp add: get_catalog_integration_def lookup_def)
  have n: "ci_name ?i = upper m" using assms(2) by simp
  have later: "get_catalog_integration self'' m = Inr ?i"
    if "other < length (objects ?self')"
      and "upper (cfg_name (objects ?self' ! other)) \<noteq> upper m"
      and "add_catalog_integration ?self' other = Inr (self'', integration')"
    for other self'' integration'
  proof -
    from that(3) add_catalog_integration_eq [OF that(1)]
    have "catalog_integrations self'' =
        (catalog_integrations ?self')
          (upper (cfg_name (objects ?self' ! other)) \<mapsto>
             \<lparr>ci_name = upper (cfg_name (objects ?self' ! other)),
              ci_table_format = cfg_table_format (objects ?self' ! other)\<rparr>)"
      by auto
    with that(2) g show ?thesis
      by (simp add: get_catalog_integration_def lookup_def)
  qed
  from a g n later show ?thesis by blast
qed

theorem registered_name_found_in_any_case_witness:
  "(0::nat) < length (objects example_adapter)
   \<and> upper ''My_CATalog'' = upper (cfg_name (objects example_adapter ! 0))
   \<and> (\<exists>self' integration.
         add_catalog_integration example_adapter 0 = Inr (self', integration)
       \<and> get_catalog_integration self' ''My_CATalog'' = Inr integration
       \<and> ci_name integration = ''MY_CATALOG'')"
proof -
  have h: "(0::nat) < length (objects example_adapter)"
    by (simp add: example_adapter_def)
  have u: "upper ''My_CATalog'' = upper (cfg_name (objects example_adapter ! 0))"
    by (simp add: example_adapter_def upper_def upper_char_def ascii_uppercase_def
        ascii_lowercase_def)
  have v: "upper ''My_CATalog'' = ''MY_CATALOG''"
    by (simp add: upper_def upper_char_def ascii_uppercase_def ascii_lowercase_def)
  from registered_name_found_in_any_case [OF h u] obtain self' integration where
    "add_catalog_integration example_adapter 0 = Inr (self', integration)"
    "get_catalog_integration self' ''My_CATalog'' = Inr integration"
    "ci_name integration = upper ''My_CATalog''"
    by blast
  with h u v show ?thesis by auto
qed

text \<open>
  Claim C9. A model configuration that declares no catalog name gives \<^verbatim>\<open>None\<close>,
  whatever the registry holds (so does the empty name, which Python takes for false). A
  configuration that declares a name has it looked up in the registry, under its
  upper-case form: the lookup's not-found error is the result when the name is absent, and
  otherwise the result is the relation the integration builds from the configuration.
\<close>

theorem build_catalog_relation_by_declared_catalog:
  "(catalog_name model = None \<longrightarrow> build_catalog_relation self model = Inr None)
   \<and> (catalog_name model = Some [] \<longrightarrow> build_catalog_relation self model = Inr None)
   \<and> (\<forall>c. catalog_name model = Some c \<and> c \<noteq> [] \<longrightarrow>
         get_catalog_integration self c = lookup (catalog_integrations self) (upper c)
       \<and> (catalog_integrations self (upper c) = None \<longrightarrow>
            build_catalog_relation self model
              = Inl (DbtCatalogIntegrationNotFoundError (upper c)))
       \<and> (\<forall>integration. catalog_integrations self (upper c) = Some integration \<longrightarrow>
            build_catalog_relation self model = Inr (Some (build_relation integration model))))"
  by (simp add: build_catalog_relation_def get_catalog_integration_def lookup_def)

theorem build_catalog_relation_by_declared_catalog_witness:
  "build_catalog_relation example_adapter (example_model\<lparr>declared_catalog := None\<rparr>) = Inr None
   \<and> build_catalog_relation example_adapter example_model
       = Inl (DbtCatalogIntegrationNotFoundError ''MY_CATALOG'')
   \<and> (\<exists>self' integration.
         add_catalog_integration example_adapter 0 = Inr (self', integration)
       \<and> build_catalog_relation self' example_model
           = Inr (Some \<lparr>cr_catalog_name = ''MY_CATALOG'', cr_table_format = OpenTableFormat,
                        cr_model = example_model\<rparr>))"
proof -
  have u: "upper ''my_catalog'' = ''MY_CATALOG''" "upper ''my_Catalog'' = ''MY_CATALOG''"
    by (simp_all add: upper_def upper_char_def ascii_uppercase_def ascii_lowercase_def)
  have h: "(0::nat) < length (objects example_adapter)"
    by (simp add: example_adapter_def)
  have "\<exists>self'. add_catalog_integration example_adapter 0
          = Inr (self', \<lparr>ci_name = ''MY_CATALOG'', ci_table_format = OpenTableFormat\<rparr>)
        \<and> catalog_integrations self' ''MY_CATALOG''
          = Some \<lparr>ci_name = ''MY_CATALOG'', ci_table_format = OpenTableFormat\<rparr>"
    using add_catalog_integration_eq [OF h] by (simp add: example_adapter_def u)
  then obtain self' where
    a: "add_catalog_integration example_adapter 0
          = Inr (self', \<lparr>ci_name = ''MY_CATALOG'', ci_table_format = OpenTableFormat\<rparr>)"
    and r: "catalog_integrations self' ''MY_CATALOG''
          = Some \<lparr>ci_name = ''MY_CATALOG'', ci_table_format = OpenTableFormat\<rparr>"
    by blast
  from build_catalog_relation_by_declared_catalog
         [of "example_model\<lparr>declared_catalog := None\<rparr>" example_adapter]
  have 1: "build_catalog_relation example_adapter (example_model\<lparr>declared_catalog := None\<rparr>) = Inr None"
    by (simp add: catalog_name_def)
  from build_catalog_relation_by_declared_catalog [of example_model example_adapter]
  have 2: "build_catalog_relation example_adapter example_model
       = Inl (DbtCatalogIntegrationNotFoundError ''MY_CATALOG'')"
    by (simp add: catalog_name_def example_model_def example_adapter_def u)
  from build_catalog_relation_by_declared_catalog [of example_model self'] r
  have 3: "build_catalog_relation self' example_model
           = Inr (Some \<lparr>cr_catalog_name = ''MY_CATALOG'', cr_table_format = OpenTableFormat,
                        cr_model = example_model\<rparr>)"
    by (simp add: catalog_name_def example_model_def u build_relation_def)
  from 1 2 3 a show ?thesis by blast
qed


section \<open>Schema drift reconciliation: the policies\<close>

lemma execute_all_append:
  "execute_all eng cols (ops @ ops') = execute_all eng (execute_all eng cols ops) ops'"
  by (simp add: execute_all_def)

lemma execute_all_adds:
  "execute_all eng cols (map (structural_op eng Add) cs) = cols @ cs"
  by (induction cs arbitrary: cols) (simp_all add: execute_all_def structural_op_def)

lemma execute_all_drops:
  "execute_all eng cols (map (structural_op eng Drop) cs) =
     filter (\<lambda>c. normalize eng (col_name c) \<notin> set (normalized_names eng cs)) cols"
proof (induction cs arbitrary: cols)
  case Nil
  then show ?case by (simp add: execute_all_def normalized_names_def)
next
  case (Cons d ds)
  have "execute_all eng cols (map (structural_op eng Drop) (d # ds)) =
      execute_all eng
        (filter (\<lambda>c. normalize eng (col_name c) \<noteq> normalize eng (col_name d)) cols)
        (map (structural_op eng Drop) ds)"
    by (simp add: execute_all_def structural_op_def)
  also have "\<dots> = filter (\<lambda>c. normalize eng (col_name c) \<notin> set (normalized_names eng ds))
      (filter (\<lambda>c. normalize eng (col_name c) \<noteq> normalize eng (col_name d)) cols)"
    by (rule Cons.IH)
  also have "\<dots> = filter (\<lambda>c. normalize eng (col_name c) \<notin> set (normalized_names eng (d # ds))) cols"
    by (auto simp: normalized_names_def intro: filter_cong)
  finally show ?case .
qed

lemma names_added:
  "set (normalized_names eng (added (compute_diff eng existing incoming))) =
     set (normalized_names eng incoming) - set (normalized_names eng existing)"
  by (auto simp: compute_diff_def normalized_names_def)

lemma names_removed:
  "set (normalized_names eng (removed (compute_diff eng existing incoming))) =
     set (normalized_names eng existing) - set (normalized_names eng incoming)"
  by (auto simp: compute_diff_def normalized_names_def)

lemma names_filter:
  "set (normalized_names eng (filter (\<lambda>c. normalize eng (col_name c) \<notin> S) cols)) =
     set (normalized_names eng cols) - S"
  by (auto simp: normalized_names_def)

lemma names_append:
  "set (normalized_names eng (xs @ ys)) = set (normalized_names eng xs) \<union> set (normalized_names eng ys)"
  by (simp add: normalized_names_def)

lemma sync_converges:
  "set (normalized_names eng
      (execute_all eng existing
        (map (structural_op eng Add) (added (compute_diff eng existing incoming))
         @ map (structural_op eng Drop) (removed (compute_diff eng existing incoming)))))
   = set (normalized_names eng incoming)"
  unfolding execute_all_append execute_all_adds execute_all_drops names_filter names_append
    names_added names_removed
  by blast

lemma no_drift_iff:
  "added (compute_diff eng existing incoming) = [] \<and> removed (compute_diff eng existing incoming) = []
   \<longleftrightarrow> set (normalized_names eng existing) = set (normalized_names eng incoming)"
proof -
  have "added (compute_diff eng existing incoming) = [] \<longleftrightarrow>
      set (normalized_names eng (added (compute_diff eng existing incoming))) = {}"
    by (simp add: normalized_names_def)
  moreover have "removed (compute_diff eng existing incoming) = [] \<longleftrightarrow>
      set (normalized_names eng (removed (compute_diff eng existing incoming))) = {}"
    by (simp add: normalized_names_def)
  ultimately show ?thesis
    unfolding names_added names_removed by blast
qed


lemma example_normalize:
  "normalize example_engine ''id'' = ''id''"
  "normalize example_engine ''name'' = ''name''"
  "normalize example_engine ''updated_at'' = ''updated_at''"
  "normalize example_engine ''Order'' = ''order''"
  "normalize example_engine ''select'' = ''select''"
  "normalize example_engine ''field-with-dash'' = ''field-with-dash''"
  by (simp_all add: normalize_def example_engine_def startswith_single endswith_single
      lower_def lower_char_def ascii_uppercase_def ascii_lowercase_def)

lemma emit_identifier_quoted:
  "lower n \<in> set (map lower (engine_reserved_words eng)) \<or> CHR ''-'' \<in> set n \<Longrightarrow>
     emit_identifier eng n = engine_quote_character eng # n @ [engine_quote_character eng]"
proof -
  have "CHR ''-'' \<notin> set plain_chars"
    by (simp add: plain_chars_def ascii_lowercase_def ascii_uppercase_def)
  then show "lower n \<in> set (map lower (engine_reserved_words eng)) \<or> CHR ''-'' \<in> set n \<Longrightarrow>
     emit_identifier eng n = engine_quote_character eng # n @ [engine_quote_character eng]"
    by (auto simp: emit_identifier_def requires_quoting_def)
qed

text \<open>
  Claim C2. Under \<^verbatim>\<open>SyncAllColumns\<close>, for every pair of existing and incoming columns,
  the returned operations are the additions followed by the drops, and after executing them
  in order the relation's set of (normalised) column names is exactly that of the incoming
  columns. Every operation on a column whose name is a reserved word or holds a dash is
  emitted with the name quoted.
\<close>

theorem sync_all_columns_converges:
  "\<exists>adds drops.
      reconcile eng existing incoming SyncAllColumns
        = (compute_diff eng existing incoming, Converged (adds @ drops))
    \<and> (\<forall>op \<in> set adds. op_intent op = Add) \<and> (\<forall>op \<in> set drops. op_intent op = Drop)
    \<and> map op_column adds = added (compute_diff eng existing incoming)
    \<and> map op_column drops = removed (compute_diff eng existing incoming)
    \<and> incremental_run eng existing incoming SyncAllColumns
        = (execute_all eng existing (adds @ drops), None)
    \<and> set (normalized_names eng (execute_all eng existing (adds @ drops)))
        = set (normalized_names eng incoming)
    \<and> (\<forall>op \<in> set (adds @ drops).
          lower (col_name (op_column op)) \<in> set (map lower (engine_reserved_words eng))
          \<or> CHR ''-'' \<in> set (col_name (op_column op))
          \<longrightarrow> op_identifier op
                = engine_quote_character eng # col_name (op_column op) @ [engine_quote_character eng])"
proof -
  let ?d = "compute_diff eng existing incoming"
  let ?adds = "map (structural_op eng Add) (added ?d)"
  let ?drops = "map (structural_op eng Drop) (removed ?d)"
  have r: "reconcile eng existing incoming SyncAllColumns = (?d, Converged (?adds @ ?drops))"
    by (simp add: reconcile_def Let_def)
  have i: "incremental_run eng existing incoming SyncAllColumns
        = (execute_all eng existing (?adds @ ?drops), None)"
    by (simp add: incremental_run_def r)
  have a: "\<forall>op \<in> set ?adds. op_intent op = Add" by (simp add: structural_op_def)
  have d: "\<forall>op \<in> set ?drops. op_intent op = Drop" by (simp add: structural_op_def)
  have ca: "map op_column ?adds = added ?d" by (simp add: structural_op_def comp_def)
  have cd: "map op_column ?drops = removed ?d" by (simp add: structural_op_def comp_def)
  have c: "set (normalized_names eng (execute_all eng existing (?adds @ ?drops)))
        = set (normalized_names eng incoming)"
    by (rule sync_converges)
  have q: "\<forall>op \<in> set (?adds @ ?drops).
          lower (col_name (op_column op)) \<in> set (map lower (engine_reserved_words eng))
          \<or> CHR ''-'' \<in> set (col_name (op_column op))
          \<longrightarrow> op_identifier op
                = engine_quote_character eng # col_name (op_column op) @ [engine_quote_character eng]"
    by (auto simp: structural_op_def emit_identifier_quoted)
  from r i a d ca cd c q show ?thesis by blast
qed

theorem sync_all_columns_converges_witness:
  "\<exists>ops. reconcile example_engine
            [example_column ''id'', example_column ''Order'']
            [example_column ''id'', example_column ''select'', example_column ''field-with-dash'']
            SyncAllColumns
          = (compute_diff example_engine
               [example_column ''id'', example_column ''Order'']
               [example_column ''id'', example_column ''select'', example_column ''field-with-dash''],
             Converged ops)
      \<and> map op_intent ops = [Add, Add, Drop]
      \<and> map op_identifier ops
          = [CHR 0x22 # ''select'' @ [CHR 0x22], CHR 0x22 # ''field-with-dash'' @ [CHR 0x22],
             CHR 0x22 # ''Order'' @ [CHR 0x22]]
      \<and> set (normalized_names example_engine
            (execute_all example_engine [example_column ''id'', example_column ''Order''] ops))
          = {''id'', ''select'', ''field-with-dash''}"
proof -
  let ?existing = "[example_column ''id'', example_column ''Order'']"
  let ?incoming = "[example_column ''id'', example_column ''select'', example_column ''field-with-dash'']"
  have names: "normalized_names example_engine ?incoming = [''id'', ''select'', ''field-with-dash'']"
    "normalized_names example_engine ?existing = [''id'', ''order'']"
    by (simp_all add: normalized_names_def example_column_def example_normalize)
  have d: "compute_diff example_engine ?existing ?incoming =
      \<lparr>added = [example_column ''select'', example_column ''field-with-dash''],
       removed = [example_column ''Order''], changed = []\<rparr>"
    unfolding compute_diff_def names by (simp add: example_column_def example_normalize)
  from sync_all_columns_converges [of example_engine ?existing ?incoming]
  obtain adds drops where
    r: "reconcile example_engine ?existing ?incoming SyncAllColumns
          = (compute_diff example_engine ?existing ?incoming, Converged (adds @ drops))"
    and ia: "\<forall>op \<in> set adds. op_intent op = Add" and id: "\<forall>op \<in> set drops. op_intent op = Drop"
    and ca: "map op_column adds = added (compute_diff example_engine ?existing ?incoming)"
    and cd: "map op_column drops = removed (compute_diff example_engine ?existing ?incoming)"
    and c: "set (normalized_names example_engine (execute_all example_engine ?existing (adds @ drops)))
          = set (normalized_names example_engine ?incoming)"
    and q: "\<forall>op \<in> set (adds @ drops).
          lower (col_name (op_column op)) \<in> set (map lower (engine_reserved_words example_engine))
          \<or> CHR ''-'' \<in> set (col_name (op_column op))
          \<longrightarrow> op_identifier op
                = engine_quote_character example_engine # col_name (op_column op)
                    @ [engine_quote_character example_engine]"
    by blast
  have v: "reconcile example_engine ?existing ?incoming SyncAllColumns
      = (compute_diff example_engine ?existing ?incoming,
         Converged
           [structural_op example_engine Add (example_column ''select''),
            structural_op example_engine Add (example_column ''field-with-dash''),
            structural_op example_engine Drop (example_column ''Order'')])"
    by (simp add: reconcile_def Let_def d)
  from r v have ops: "adds @ drops =
           [structural_op example_engine Add (example_column ''select''),
            structural_op example_engine Add (example_column ''field-with-dash''),
            structural_op example_engine Drop (example_column ''Order'')]"
    by simp
  have qc: "engine_quote_character example_engine = CHR 0x22"
    by (simp add: example_engine_def)
  have reserved: "lower ''select'' \<in> set (map lower (engine_reserved_words example_engine))"
    "lower ''Order'' \<in> set (map lower (engine_reserved_words example_engine))"
    by (simp_all add: example_engine_def lower_def lower_char_def ascii_uppercase_def
        ascii_lowercase_def)
  have i1: "op_identifier (structural_op example_engine Add (example_column ''select''))
      = CHR 0x22 # ''select'' @ [CHR 0x22]"
    using reserved q unfolding ops
    by (simp add: structural_op_def example_column_def qc)
  have i2: "op_identifier (structural_op example_engine Add (example_column ''field-with-dash''))
      = CHR 0x22 # ''field-with-dash'' @ [CHR 0x22]"
    using reserved q unfolding ops
    by (simp add: structural_op_def example_column_def qc)
  have i3: "op_identifier (structural_op example_engine Drop (example_column ''Order''))
      = CHR 0x22 # ''Order'' @ [CHR 0x22]"
    using reserved q unfolding ops
    by (simp add: structural_op_def example_column_def qc)
  have m1: "map op_intent (adds @ drops) = [Add, Add, Drop]"
    unfolding ops by (simp add: structural_op_def)
  have m2: "map op_identifier (adds @ drops)
      = [CHR 0x22 # ''select'' @ [CHR 0x22], CHR 0x22 # ''field-with-dash'' @ [CHR 0x22],
         CHR 0x22 # ''Order'' @ [CHR 0x22]]"
    by (simp only: ops list.map i1 i2 i3)
  have m3: "set (normalized_names example_engine (execute_all example_engine ?existing (adds @ drops)))
      = {''id'', ''select'', ''field-with-dash''}"
    by (simp only: c names list.set)
  show ?thesis
    by (rule exI [where x = "adds @ drops"]) (intro conjI r m1 m2 m3)
qed

text \<open>
  Claim C1. Under \<^verbatim>\<open>Fail\<close>, the existing and incoming column sets differ exactly when
  \<open>added\<close> or \<open>removed\<close> is non-empty. When they differ, the run reports a drift error
  and no structural operation, the error's message holds the out-of-sync phrase, and the
  stored columns are the existing ones; when they do not, the run is a no-op without an
  error.
\<close>

theorem fail_policy_reports_drift:
  "(set (normalized_names eng existing) \<noteq> set (normalized_names eng incoming)
      \<longleftrightarrow> added (compute_diff eng existing incoming) \<noteq> []
          \<or> removed (compute_diff eng existing incoming) \<noteq> [])
   \<and> (set (normalized_names eng existing) \<noteq> set (normalized_names eng incoming) \<longrightarrow>
        (\<exists>err. reconcile eng existing incoming Fail
                 = (compute_diff eng existing incoming, DriftReported err)
              \<and> str_contains out_of_sync_phrase (error_message err)
              \<and> incremental_run eng existing incoming Fail = (existing, Some err)))
   \<and> (set (normalized_names eng existing) = set (normalized_names eng incoming) \<longrightarrow>
        reconcile eng existing incoming Fail = (compute_diff eng existing incoming, Converged [])
        \<and> incremental_run eng existing incoming Fail = (existing, None))"
proof -
  let ?d = "compute_diff eng existing incoming"
  have e: "set (normalized_names eng existing) \<noteq> set (normalized_names eng incoming)
      \<longleftrightarrow> added ?d \<noteq> [] \<or> removed ?d \<noteq> []"
    using no_drift_iff [of eng existing incoming] by blast
  have drift: "\<exists>err. reconcile eng existing incoming Fail = (?d, DriftReported err)
              \<and> str_contains out_of_sync_phrase (error_message err)
              \<and> incremental_run eng existing incoming Fail = (existing, Some err)"
    if "added ?d \<noteq> [] \<or> removed ?d \<noteq> []"
  proof -
    from that have "reconcile eng existing incoming Fail
        = (?d, DriftReported (SchemaDriftError out_of_sync_phrase ?d))"
      by (simp add: reconcile_def Let_def)
    moreover from this have "incremental_run eng existing incoming Fail
        = (existing, Some (SchemaDriftError out_of_sync_phrase ?d))"
      by (simp add: incremental_run_def)
    moreover have "str_contains out_of_sync_phrase
        (error_message (SchemaDriftError out_of_sync_phrase ?d))"
      by (simp add: str_contains_self)
    ultimately show ?thesis by blast
  qed
  have same: "reconcile eng existing incoming Fail = (?d, Converged [])
        \<and> incremental_run eng existing incoming Fail = (existing, None)"
    if "added ?d = [] \<and> removed ?d = []"
    using that by (simp add: reconcile_def incremental_run_def execute_all_def Let_def)
  from e drift same show ?thesis by blast
qed


theorem fail_policy_reports_drift_witness:
  "set (normalized_names example_engine [example_column ''id'', example_column ''name''])
     \<noteq> set (normalized_names example_engine
           [example_column ''id'', example_column ''name'', example_column ''updated_at''])
   \<and> (\<exists>err. incremental_run example_engine
               [example_column ''id'', example_column ''name'']
               [example_column ''id'', example_column ''name'', example_column ''updated_at'']
               Fail
             = ([example_column ''id'', example_column ''name''], Some err)
           \<and> str_contains out_of_sync_phrase (error_message err))
   \<and> incremental_run example_engine
        [example_column ''id'', example_column ''name'']
        [example_column ''name'', example_column ''id'']
        Fail
      = ([example_column ''id'', example_column ''name''], None)"
proof -
  let ?existing = "[example_column ''id'', example_column ''name'']"
  let ?incoming = "[example_column ''id'', example_column ''name'', example_column ''updated_at'']"
  let ?same = "[example_column ''name'', example_column ''id'']"
  have names: "normalized_names example_engine ?existing = [''id'', ''name'']"
    "normalized_names example_engine ?incoming = [''id'', ''name'', ''updated_at'']"
    "normalized_names example_engine ?same = [''name'', ''id'']"
    by (simp_all add: normalized_names_def example_column_def example_normalize)
  have "''updated_at'' \<in> set (normalized_names example_engine ?incoming)"
    unfolding names by simp
  moreover have "''updated_at'' \<notin> set (normalized_names example_engine ?existing)"
    unfolding names by simp
  ultimately have differ: "set (normalized_names example_engine ?existing)
      \<noteq> set (normalized_names example_engine ?incoming)"
    by metis
  have equal: "set (normalized_names example_engine ?existing)
      = set (normalized_names example_engine ?same)"
    unfolding names by (simp add: insert_commute)
  from fail_policy_reports_drift [of example_engine ?existing ?incoming] differ
  have 1: "\<exists>err. incremental_run example_engine ?existing ?incoming Fail = (?existing, Some err)
           \<and> str_contains out_of_sync_phrase (error_message err)"
    by blast
  from fail_policy_reports_drift [of example_engine ?existing ?same] equal
  have 2: "incremental_run example_engine ?existing ?same Fail = (?existing, None)"
    by blast
  from differ 1 2 show ?thesis by blast
qed

end
